theory Spec2Isabelle
  imports Complex_Main "HOL-Library.Word"
begin

section \<open>Outgoing OAuth2 client-credentials middleware (outgoingoauth2cc.go)\<close>

text \<open>
  Go strings are byte sequences; they are modelled as \<open>string\<close> (a list of 8-bit
  characters). Functions of the Go standard library that the plugin calls are either
  written out here following the library's algorithm (\<open>strings.HasPrefix\<close>,
  \<open>strings.SplitN\<close>, \<open>encoding/base64\<close>, \<open>url.QueryEscape\<close>) or, where they
  reach outside the process or are large (\<open>os.LookupEnv\<close>, \<open>os.ReadFile\<close>,
  \<open>strings.TrimSpace\<close>, \<open>json.Unmarshal\<close>, \<open>strconv.ParseFloat\<close>,
  \<open>http.StatusText\<close>, the HTTP client, the clock), taken as parameters.
\<close>

subsection \<open>Errors\<close>

text \<open>
  One constructor per error that \<open>New\<close> and \<open>fromFlexibleValue\<close> return. Go formats the
  errors into message strings; the model keeps their parts.
\<close>

datatype error =
    InvalidFormat string          \<comment> \<open>invalid flexible fieldValue format: '%s'\<close>
  | ReadFileError string          \<comment> \<open>error of \<open>os.ReadFile\<close> for the path\<close>
  | EnvNotFound string            \<comment> \<open>environment variable '%s' not found\<close>
  | UnknownSource string          \<comment> \<open>unknown source: %s\<close>
  | CorruptInputError             \<comment> \<open>error of the last base64 decoder tried\<close>
  | UnknownEncoding string        \<comment> \<open>unknown encoding: %s\<close>
  | FieldError string string error  \<comment> \<open>failed to parse field '%s=%s': %v\<close>
  | MissingURL                    \<comment> \<open>missing value for url\<close>

subsection \<open>strings.HasPrefix and strings.SplitN\<close>

definition HasPrefix :: "string \<Rightarrow> string \<Rightarrow> bool" where
  "HasPrefix s pre = (length pre \<le> length s \<and> take (length pre) s = pre)"

text \<open>
  \<open>strings.SplitN(s, sep, n)\<close> for a separator of one byte, as the plugin calls it
  (\<open>sep = "~"\<close>): at most \<open>n\<close> pieces, the last one the unsplit remainder.
  \<open>genSplit\<close> caps \<open>n\<close> at \<open>len(s) + 1\<close>, then cuts at the separator \<open>n - 1\<close> times
  or until none is left.
\<close>

fun genSplit :: "nat \<Rightarrow> char \<Rightarrow> string \<Rightarrow> string list" where
  "genSplit 0 sep s = [s]"
| "genSplit (Suc k) sep s =
     (if sep \<in> set s
      then takeWhile (\<lambda>c. c \<noteq> sep) s # genSplit k sep (tl (dropWhile (\<lambda>c. c \<noteq> sep) s))
      else [s])"

definition SplitN :: "string \<Rightarrow> char \<Rightarrow> nat \<Rightarrow> string list" where
  "SplitN s sep n = (if n = 0 then [] else genSplit (min n (length s + 1) - 1) sep s)"

subsection \<open>encoding/base64\<close>

text \<open>
  An encoding is its 64-character alphabet and its padding character (\<open>None\<close> for the
  raw encodings). The three encodings the plugin uses are not strict, so the check of
  trailing padding bits is absent.
\<close>

record Encoding =
  alphabet :: string
  padChar :: "char option"

definition encodeStd :: string where
  "encodeStd = ''ABCDEFGHIJKLMNOPQRSTUVWXYZabcdefghijklmnopqrstuvwxyz0123456789+/''"

definition encodeURL :: string where
  "encodeURL = ''ABCDEFGHIJKLMNOPQRSTUVWXYZabcdefghijklmnopqrstuvwxyz0123456789-_''"

definition StdEncoding :: Encoding where
  "StdEncoding = \<lparr>alphabet = encodeStd, padChar = Some (CHR ''='')\<rparr>"

definition URLEncoding :: Encoding where
  "URLEncoding = \<lparr>alphabet = encodeURL, padChar = Some (CHR ''='')\<rparr>"

definition RawURLEncoding :: Encoding where
  "RawURLEncoding = \<lparr>alphabet = encodeURL, padChar = None\<rparr>"

fun index_of :: "'a \<Rightarrow> 'a list \<Rightarrow> nat option" where
  "index_of x [] = None"
| "index_of x (y # ys) = (if x = y then Some 0 else map_option Suc (index_of x ys))"

definition decodeMap :: "Encoding \<Rightarrow> char \<Rightarrow> nat option" where
  "decodeMap enc c = index_of c (alphabet enc)"

definition is_newline :: "char \<Rightarrow> bool" where
  "is_newline c = (c = CHR 0x0A \<or> c = CHR 0x0D)"

definition skip_newlines :: "string \<Rightarrow> string" where
  "skip_newlines s = dropWhile is_newline s"

text \<open>
  The bytes of one quantum: \<open>dbuf\<close> holds the 2, 3 or 4 sextets read (\<open>dlen\<close>), the
  missing ones are 0, and \<open>dlen - 1\<close> bytes of the 24-bit value come out.
\<close>

definition quantum_bytes :: "nat list \<Rightarrow> string" where
  "quantum_bytes dbuf =
     (let d = dbuf @ replicate (4 - length dbuf) 0;
          val = d ! 0 * 262144 + d ! 1 * 4096 + d ! 2 * 64 + d ! 3
      in take (length dbuf - 1)
           [char_of (val div 65536), char_of (val div 256), char_of val])"

text \<open>
  \<open>Encoding.Decode\<close> with \<open>decodeQuantum\<close>: \<open>dbuf\<close> is the quantum being filled.
  Line feeds and carriage returns are skipped; a padding character is accepted only
  after two or three sextets, must complete the quantum, and only newlines may follow
  it; at the end of the input an incomplete quantum is an error for a padded encoding
  and for a single sextet. \<open>None\<close> is \<open>CorruptInputError\<close>.
\<close>

fun decode :: "Encoding \<Rightarrow> nat list \<Rightarrow> string \<Rightarrow> string option" where
  "decode enc dbuf [] =
     (if dbuf = [] then Some []
      else if length dbuf = 1 \<or> padChar enc \<noteq> None then None
      else Some (quantum_bytes dbuf))"
| "decode enc dbuf (c # src) =
     (case decodeMap enc c of
        Some out \<Rightarrow>
          (if length dbuf = 3
           then map_option (\<lambda>r. quantum_bytes (dbuf @ [out]) @ r) (decode enc [] src)
           else decode enc (dbuf @ [out]) src)
      | None \<Rightarrow>
          if is_newline c then decode enc dbuf src
          else if padChar enc \<noteq> Some c then None
          else if length dbuf < 2 then None
          else if length dbuf = 2 then
            (case skip_newlines src of
               [] \<Rightarrow> None
             | c' # src' \<Rightarrow>
                 if padChar enc \<noteq> Some c' then None
                 else if skip_newlines src' = [] then Some (quantum_bytes dbuf)
                 else None)
          else if skip_newlines src = [] then Some (quantum_bytes dbuf)
          else None)"

definition DecodeString :: "Encoding \<Rightarrow> string \<Rightarrow> string option" where
  "DecodeString enc s = decode enc [] s"

text \<open>\<open>Encoding.EncodeToString\<close>: three bytes give four characters, a rest of one or
  two bytes is padded when the encoding has a padding character.\<close>

definition sextet :: "Encoding \<Rightarrow> nat \<Rightarrow> char" where
  "sextet enc v = alphabet enc ! (v mod 64)"

definition padding :: "Encoding \<Rightarrow> nat \<Rightarrow> string" where
  "padding enc n = (case padChar enc of None \<Rightarrow> [] | Some p \<Rightarrow> replicate n p)"

fun encode :: "Encoding \<Rightarrow> string \<Rightarrow> string" where
  "encode enc [] = []"
| "encode enc [a] =
     (let val = of_char a * (65536::nat)
      in [sextet enc (val div 262144), sextet enc (val div 4096)] @ padding enc 2)"
| "encode enc [a, b] =
     (let val = of_char a * (65536::nat) + of_char b * 256
      in [sextet enc (val div 262144), sextet enc (val div 4096), sextet enc (val div 64)]
         @ padding enc 1)"
| "encode enc (a # b # c # src) =
     (let val = of_char a * (65536::nat) + of_char b * 256 + of_char c
      in [sextet enc (val div 262144), sextet enc (val div 4096), sextet enc (val div 64),
          sextet enc val] @ encode enc src)"

definition EncodeToString :: "Encoding \<Rightarrow> string \<Rightarrow> string" where
  "EncodeToString enc s = encode enc s"

subsection \<open>url.QueryEscape\<close>

definition is_alnum :: "char \<Rightarrow> bool" where
  "is_alnum c = (let n = (of_char c :: nat) in
     (97 \<le> n \<and> n \<le> 122) \<or> (65 \<le> n \<and> n \<le> 90) \<or> (48 \<le> n \<and> n \<le> 57))"

definition shouldEscape :: "char \<Rightarrow> bool" where
  "shouldEscape c =
     (\<not> (is_alnum c \<or> c = CHR ''-'' \<or> c = CHR ''_'' \<or> c = CHR ''.'' \<or> c = CHR ''~''))"

definition upperhex :: string where
  "upperhex = ''0123456789ABCDEF''"

definition escape_byte :: "char \<Rightarrow> string" where
  "escape_byte c =
     (if c = CHR '' '' then ''+''
      else if shouldEscape c
        then [CHR ''%'', upperhex ! ((of_char c :: nat) div 16), upperhex ! ((of_char c :: nat) mod 16)]
      else [c])"

definition QueryEscape :: "string \<Rightarrow> string" where
  "QueryEscape s = concat (map escape_byte s)"

definition queryEncode :: "string \<Rightarrow> bool \<Rightarrow> string" where
  "queryEncode s skip = (if skip then s else QueryEscape s)"

subsection \<open>Flexible values\<close>

text \<open>
  What the process sees when the plugin is constructed: the environment
  (\<open>os.LookupEnv\<close>; unset is \<open>None\<close>), the readable files (\<open>os.ReadFile\<close>; an error
  is \<open>None\<close>) and \<open>strings.TrimSpace\<close>.
\<close>

record sys =
  LookupEnv :: "string \<rightharpoonup> string"
  ReadFile :: "string \<rightharpoonup> string"
  TrimSpace :: "string \<Rightarrow> string"

definition fromFlexibleValue :: "sys \<Rightarrow> string \<Rightarrow> error + string" where
  "fromFlexibleValue sy fieldValue =
     (if \<not> HasPrefix fieldValue ''~'' then Inr fieldValue
      else
        let isBase64 = (if HasPrefix fieldValue ''~base64~'' then 1 else 0 :: nat);
            parts = SplitN fieldValue (CHR ''~'') (1 + 1 + 1 + isBase64)
        in if length parts < 1 + 1 + 1 + isBase64 then Inl (InvalidFormat fieldValue)
           else
             let encoding = parts ! isBase64;
                 source = parts ! (isBase64 + 1);
                 val = parts ! (1 + 1 + isBase64);
                 resolved =
                   (if source = ''file'' then
                      (case ReadFile sy val of
                         None \<Rightarrow> Inl (ReadFileError val)
                       | Some valueBytes \<Rightarrow> Inr (TrimSpace sy valueBytes))
                    else if source = ''env'' then
                      (case LookupEnv sy val of
                         None \<Rightarrow> Inl (EnvNotFound val)
                       | Some envValue \<Rightarrow> Inr envValue)
                    else if source = ''direct'' then Inr val
                    else Inl (UnknownSource source))
             in case resolved of
                  Inl err \<Rightarrow> Inl err
                | Inr v \<Rightarrow>
                    if isBase64 = 1 then
                      (if encoding = ''base64'' then
                         (case DecodeString StdEncoding v of
                            Some decoded \<Rightarrow> Inr decoded
                          | None \<Rightarrow>
                              (case DecodeString URLEncoding v of
                                 Some decoded \<Rightarrow> Inr decoded
                               | None \<Rightarrow>
                                   (case DecodeString RawURLEncoding v of
                                      Some decoded \<Rightarrow> Inr decoded
                                    | None \<Rightarrow> Inl CorruptInputError)))
                       else Inl (UnknownEncoding encoding))
                    else Inr v)"

definition fromFlexibleField :: "sys \<Rightarrow> string \<Rightarrow> string \<Rightarrow> error + string" where
  "fromFlexibleField sy fieldName fieldValue =
     (case fromFlexibleValue sy fieldValue of
        Inl err \<Rightarrow> Inl (FieldError fieldName fieldValue err)
      | Inr r \<Rightarrow> Inr r)"

subsection \<open>Configuration and construction\<close>

text \<open>
  Go's \<open>int\<close> (the type of \<open>ExpiresMarginSeconds\<close>) is taken at its 64-bit width, so
  that the conversion \<open>int64(...)\<close> in \<open>New\<close> is the identity. Signed 64-bit integers
  are \<open>64 word\<close> read with \<open>sint\<close>; \<open>+\<close>, \<open>-\<close> and \<open>*\<close> wrap around as Go's do.
\<close>

type_synonym int64 = "64 word"

record Header =
  Name :: string
  Value :: string

record AuthGrantRequestConfig =
  URL :: string
  User :: string
  Pass :: string
  Scope :: string
  Headers :: "Header list"
  ExpiresMarginSeconds :: int64
  BasicAuthSkipEncoding :: bool

record Config =
  AuthGrantRequest :: AuthGrantRequestConfig
  Trace :: bool

text \<open>
  A \<open>time.Time\<close> is the number of nanoseconds since Go's zero time (January 1, year 1,
  UTC), so the zero value \<open>time.Time{}\<close> is 0. The stored expiry never carries a
  monotonic clock reading (\<open>Truncate\<close> strips it), so \<open>After\<close> compares wall-clock
  instants. A \<open>time.Duration\<close> is an \<open>int64\<close> count of nanoseconds; adding one to a
  clock reading stays far inside the range of \<open>time.Time\<close> (whose seconds are an
  \<open>int64\<close>), so instants themselves are unbounded integers here.
\<close>

type_synonym Time = int

record state =
  token :: string
  expires :: Time

text \<open>The plugin instance. The field \<open>next\<close> is the wrapped handler; calling it is
  recorded as the reply \<open>Forwarded\<close> below.\<close>

record OutgoingOAuth2CC =
  name :: string
  trace :: bool
  authGrantUrl :: string
  authGrantScope :: string
  authGrantHeaders :: "string \<rightharpoonup> string"
  authGrantExpiresMarginSeconds :: int64
  state :: state

definition maxInt :: "int64 \<Rightarrow> int64 \<Rightarrow> int64" where
  "maxInt a b = (if sint a > sint b then a else b)"

text \<open>The loop over \<open>config.AuthGrantRequest.Headers\<close>: it returns at the first
  field that does not resolve; a later header of the same name replaces an earlier one.\<close>

fun resolveHeaders :: "sys \<Rightarrow> Header list \<Rightarrow> (string \<rightharpoonup> string) \<Rightarrow> error + (string \<rightharpoonup> string)" where
  "resolveHeaders sy [] hdrs = Inr hdrs"
| "resolveHeaders sy (header # rest) hdrs =
     (case fromFlexibleField sy ''header.name'' (Name header) of
        Inl err \<Rightarrow> Inl err
      | Inr hdrName \<Rightarrow>
          (case fromFlexibleField sy ''header.value'' (Value header) of
             Inl err \<Rightarrow> Inl err
           | Inr hdrValue \<Rightarrow> resolveHeaders sy rest (hdrs(hdrName \<mapsto> hdrValue))))"

definition New :: "sys \<Rightarrow> Config \<Rightarrow> string \<Rightarrow> error + OutgoingOAuth2CC" where
  "New sy config nm =
     (let ag = AuthGrantRequest config in
      case resolveHeaders sy (Headers ag) Map.empty of
        Inl err \<Rightarrow> Inl err
      | Inr hdrs \<Rightarrow>
      (case fromFlexibleField sy ''user'' (User ag) of
        Inl err \<Rightarrow> Inl err
      | Inr user \<Rightarrow>
      (case (if user \<noteq> [] then
               (case fromFlexibleField sy ''pass'' (Pass ag) of
                  Inl err \<Rightarrow> Inl err
                | Inr pass \<Rightarrow>
                    let basicAuthSkipEncoding = BasicAuthSkipEncoding ag;
                        basicAuth = queryEncode user basicAuthSkipEncoding @ '':''
                                    @ queryEncode pass basicAuthSkipEncoding
                    in Inr (hdrs(''Authorization'' \<mapsto>
                              ''Basic '' @ EncodeToString StdEncoding basicAuth)))
             else Inr hdrs) of
        Inl err \<Rightarrow> Inl err
      | Inr authGrantHeaders' \<Rightarrow>
      (case fromFlexibleField sy ''url'' (URL ag) of
        Inl err \<Rightarrow> Inl err
      | Inr grantUrl \<Rightarrow>
          if grantUrl = [] then Inl MissingURL
          else Inr \<lparr>name = nm,
                    trace = Trace config,
                    authGrantUrl = grantUrl,
                    authGrantScope = Scope ag,
                    authGrantHeaders = authGrantHeaders',
                    authGrantExpiresMarginSeconds = maxInt 1 (ExpiresMarginSeconds ag),
                    state = \<lparr>token = [], expires = 0\<rparr>\<rparr>))))"

subsection \<open>Serving a request\<close>

text \<open>
  The value of \<open>expires_in\<close> after JSON decoding is a \<open>float64\<close>. Every finite
  \<open>float64\<close> is a rational number, and the only operation the plugin applies to it
  is the conversion to \<open>int64\<close>, so a finite value is carried as that rational; the
  infinities and NaN can come out of \<open>strconv.ParseFloat\<close>. What \<open>json.Unmarshal\<close>
  puts into a \<open>map[string]interface{}\<close> is a \<open>jvalue\<close>.
\<close>

datatype float64 = Finite rat | PosInf | NegInf | NaN

datatype jvalue =
    JNull
  | JBool bool
  | JNumber float64
  | JString string
  | JArray "jvalue list"
  | JObject "(string \<times> jvalue) list"

text \<open>The request the plugin hands to \<open>http.DefaultClient.Do\<close>: the two headers it
  sets itself and then every entry of \<open>authGrantHeaders\<close>, set in map order.\<close>

record grant_request =
  req_method :: string
  req_url :: string
  req_body :: string
  req_own_headers :: "(string \<times> string) list"
  req_config_headers :: "string \<rightharpoonup> string"

record grant_response =
  StatusCode :: int
  Body :: string

text \<open>
  What one call of \<open>ServeHTTP\<close> sees of the outside: the two clock readings, the
  library functions, the authorization server behind \<open>Do\<close>, and whether
  \<open>rw.Write\<close> reports an error. \<open>ParseFloat\<close> returns its value and its error
  (\<open>None\<close> is \<open>nil\<close>). Go leaves the conversion of a \<open>float64\<close> that does not fit
  \<open>int64\<close> to the implementation: it is \<open>float_out_of_range\<close>.
\<close>

record world =
  now_check :: Time
  now_store :: Time
  NewRequest :: "string \<Rightarrow> string \<Rightarrow> string \<Rightarrow> string option"
  Do :: "grant_request \<Rightarrow> string + grant_response"
  Unmarshal :: "string \<Rightarrow> string + (string \<rightharpoonup> jvalue)"
  ParseFloat :: "string \<Rightarrow> float64 \<times> string option"
  StatusText :: "int \<Rightarrow> string"
  float_out_of_range :: "float64 \<Rightarrow> int64"
  Write_fails :: bool

text \<open>The incoming request: its header map (\<open>http.Header\<close>) and everything else.\<close>

record Request =
  Header :: "string \<rightharpoonup> string list"
  Rest :: string

text \<open>
  What the call does: it either calls the next handler with the request
  (\<open>Forwarded\<close>) or calls \<open>WriteHeader\<close> and \<open>Write\<close> on the response writer
  (\<open>Responded\<close>); \<open>grant_calls\<close> are the requests sent through \<open>Do\<close>, and
  \<open>stderr\<close> and \<open>stdout\<close> the lines written to the two streams.
\<close>

datatype reply = Forwarded Request | Responded int string

record effects =
  reply :: reply
  grant_calls :: "grant_request list"
  stderr :: "string list"
  stdout :: "string list"

text \<open>\<open>%d\<close> of \<open>fmt.Sprintf\<close>.\<close>

fun digits :: "nat \<Rightarrow> string" where
  "digits n = (if n < 10 then [char_of (48 + n)] else digits (n div 10) @ [char_of (48 + n mod 10)])"

declare digits.simps [simp del]

definition Itoa :: "int \<Rightarrow> string" where
  "Itoa i = (if i < 0 then CHR ''-'' # digits (nat (- i)) else digits (nat i))"

definition Second :: int64 where
  "Second = 1000000000"

definition Truncate :: "Time \<Rightarrow> int64 \<Rightarrow> Time" where
  "Truncate t d = (if sint d \<le> 0 then t else t - t mod sint d)"

definition Add :: "Time \<Rightarrow> int64 \<Rightarrow> Time" where
  "Add t d = t + sint d"

definition After :: "Time \<Rightarrow> Time \<Rightarrow> bool" where
  "After t u = (u < t)"

text \<open>\<open>int64(f)\<close>: the fraction is discarded (truncation towards zero).\<close>

definition trunc :: "rat \<Rightarrow> int" where
  "trunc q = (if 0 \<le> q then \<lfloor>q\<rfloor> else \<lceil>q\<rceil>)"

definition int64_of_float64 :: "world \<Rightarrow> float64 \<Rightarrow> int64" where
  "int64_of_float64 w f =
     (case f of
        Finite q \<Rightarrow>
          if - (2 ^ 63) \<le> trunc q \<and> trunc q < 2 ^ 63 then word_of_int (trunc q)
          else float_out_of_range w f
      | _ \<Rightarrow> float_out_of_range w f)"

text \<open>The type assertions \<open>v.(string)\<close> and \<open>v.(float64)\<close> on a map entry: the value
  (the zero value when the assertion fails) and \<open>ok\<close>.\<close>

definition assert_string :: "jvalue option \<Rightarrow> string \<times> bool" where
  "assert_string v = (case v of Some (JString s) \<Rightarrow> (s, True) | _ \<Rightarrow> ([], False))"

definition assert_float64 :: "jvalue option \<Rightarrow> float64 \<times> bool" where
  "assert_float64 v = (case v of Some (JNumber f) \<Rightarrow> (f, True) | _ \<Rightarrow> (Finite 0, False))"

definition serveError :: "world \<Rightarrow> string \<Rightarrow> int \<Rightarrow> effects" where
  "serveError w msg status =
     \<lparr>reply = Responded status (StatusText w status @ '': '' @ msg),
      grant_calls = [],
      stderr = [''outgoing-oauth2-cc: error: '' @ msg @ [CHR 0x0A]],
      stdout = (if Write_fails w then [msg] else [])\<rparr>"

definition serveInternalError :: "world \<Rightarrow> string \<Rightarrow> effects" where
  "serveInternalError w msg = serveError w msg 500"

text \<open>\<open>url.Values.Encode\<close> of the form data: the keys in sorted order.\<close>

definition form_data :: "string \<Rightarrow> string" where
  "form_data scope =
     ''grant_type=client_credentials''
     @ (if scope \<noteq> [] then ''&scope='' @ QueryEscape scope else [])"

text \<open>The effects of a part of the call that follows the grant request \<open>agReq\<close> and the
  trace lines \<open>tr\<close> already written.\<close>

definition after_grant :: "grant_request \<Rightarrow> string list \<Rightarrow> effects \<Rightarrow> effects" where
  "after_grant agReq tr eff = eff\<lparr>grant_calls := [agReq], stdout := tr @ stdout eff\<rparr>"

definition forward :: "OutgoingOAuth2CC \<Rightarrow> Request \<Rightarrow> effects" where
  "forward c req =
     \<lparr>reply = Forwarded
        (req\<lparr>Header := (Header req)(''Authorization'' \<mapsto> [''Bearer '' @ token (state c)])\<rparr>),
      grant_calls = [], stderr = [], stdout = []\<rparr>"

text \<open>The grant request once \<open>http.NewRequest\<close> has succeeded and the headers are
  set.\<close>

definition build_request :: "OutgoingOAuth2CC \<Rightarrow> string \<Rightarrow> grant_request" where
  "build_request c data =
     \<lparr>req_method = ''POST'', req_url = authGrantUrl c, req_body = data,
      req_own_headers =
        [(''Content-Type'', ''application/x-www-form-urlencoded''), (''Accept'', ''*/*'')],
      req_config_headers = authGrantHeaders c\<rparr>"

definition ServeHTTP :: "world \<Rightarrow> OutgoingOAuth2CC \<Rightarrow> Request \<Rightarrow> OutgoingOAuth2CC \<times> effects" where
  "ServeHTTP w c req =
     (if After (now_check w) (expires (state c)) then
        (let data = form_data (authGrantScope c) in
         (case NewRequest w ''POST'' (authGrantUrl c) data of
            Some err \<Rightarrow> (c, serveInternalError w (''new-request: '' @ err))
          | None \<Rightarrow>
             (let agReq = build_request c data in
              (case Do w agReq of
                 Inl err \<Rightarrow>
                   (c, after_grant agReq [] (serveInternalError w (''do-request: '' @ err)))
               | Inr agRes \<Rightarrow>
                  (let body = Body agRes;
                       tr = (if trace c
                             then [''outgoing-oauth2-cc auth-grant response: '' @ body @ [CHR 0x0A]]
                             else [])
                   in
                   if StatusCode agRes \<noteq> 200 then
                     (c, after_grant agReq tr
                           (serveError w (''status-code: '' @ Itoa (StatusCode agRes))
                              (StatusCode agRes)))
                   else
                     (case Unmarshal w body of
                        Inl err \<Rightarrow>
                          (c, after_grant agReq tr
                                (serveInternalError w (''unmarshall: '' @ err)))
                      | Inr responseData \<Rightarrow>
                         (let (accessToken, ok) = assert_string (responseData ''access_token'')
                          in
                          if \<not> ok then
                            (c, after_grant agReq tr
                                  (serveInternalError w ''access_token not found''))
                          else
                            (let (expiresInStr, okStr) = assert_string (responseData ''expires_in'');
                                 (expiresInFlt0, okFlt) = assert_float64 (responseData ''expires_in'');
                                 (expiresInFlt, err) =
                                    (if \<not> okFlt \<and> okStr then ParseFloat w expiresInStr
                                     else (expiresInFlt0, None))
                             in
                             if \<not> okFlt \<and> err \<noteq> None then
                               (c, after_grant agReq tr
                                     (serveInternalError w ''expires_in not found or not parseable''))
                             else
                               (let expiresIn = int64_of_float64 w expiresInFlt;
                                    expiresInAdjusted =
                                      maxInt 1 (expiresIn - authGrantExpiresMarginSeconds c);
                                    c' = c\<lparr>state :=
                                           \<lparr>token = accessToken,
                                            expires = Add (Truncate (now_store w) Second)
                                                        (expiresInAdjusted * Second)\<rparr>\<rparr>;
                                    tr' = (if trace c
                                           then [''outgoing-oauth2-cc: token='' @ token (state c')
                                                 @ ''  expires='' @ Itoa (sint expiresIn)
                                                 @ ''  adjusted='' @ Itoa (sint expiresInAdjusted)
                                                 @ [CHR 0x0A]]
                                           else [])
                                in (c', after_grant agReq (tr @ tr') (forward c' req)))))))))))
      else (c, forward c req))"

subsection \<open>The decoding order in the specification's words\<close>

text \<open>
  This definition follows the specification, not the code: the payload is decoded
  with the standard alphabet, the URL-safe alphabet and the unpadded URL-safe alphabet,
  in that order; the first successful decode is returned, and the decoding fails if all
  three fail.
\<close>

definition decode_first_success :: "string \<Rightarrow> error + string" where
  "decode_first_success v =
     (case List.find (\<lambda>r. r \<noteq> None)
             (map (\<lambda>enc. DecodeString enc v) [StdEncoding, URLEncoding, RawURLEncoding]) of
        Some (Some decoded) \<Rightarrow> Inr decoded
      | _ \<Rightarrow> Inl CorruptInputError)"

subsection \<open>Concrete inputs\<close>

text \<open>A process environment with the variables and files of the repository's tests;
  on these file contents \<open>strings.TrimSpace\<close> has nothing to trim but ASCII space
  characters.\<close>

definition is_ascii_space :: "char \<Rightarrow> bool" where
  "is_ascii_space c = (c \<in> set [CHR 0x09, CHR 0x0A, CHR 0x0B, CHR 0x0C, CHR 0x0D, CHR '' ''])"

definition trim_ascii :: "string \<Rightarrow> string" where
  "trim_ascii s = rev (dropWhile is_ascii_space (rev (dropWhile is_ascii_space s)))"

definition sys_test :: sys where
  "sys_test =
     \<lparr>LookupEnv = [''TEST_ENV'' \<mapsto> ''env_value'', ''TEST_ENV_BASE64'' \<mapsto> ''ZW52X3ZhbHVl''],
      ReadFile = [''/tmp/passfile'' \<mapsto> ''pass'', ''/tmp/testfile.txt'' \<mapsto> ''file_value''],
      TrimSpace = trim_ascii\<rparr>"

definition config_simple :: Config where
  "config_simple =
     \<lparr>AuthGrantRequest =
        \<lparr>URL = ''http://127.0.0.1:8080/auth'', User = ''user'', Pass = ''~file~/tmp/passfile'',
         Scope = [], Headers = [\<lparr>Name = ''header1'', Value = ''value1''\<rparr>],
         ExpiresMarginSeconds = 0, BasicAuthSkipEncoding = False\<rparr>,
      Trace = False\<rparr>"

definition config_special :: Config where
  "config_special =
     \<lparr>AuthGrantRequest =
        \<lparr>URL = ''http://127.0.0.1:8080/auth'', User = ''user/=?&'', Pass = ''pass/=?&'',
         Scope = [], Headers = [],
         ExpiresMarginSeconds = 0, BasicAuthSkipEncoding = False\<rparr>,
      Trace = False\<rparr>"

text \<open>A configuration without a user whose \<open>pass\<close> names an unset variable, and one
  with a user and the same \<open>pass\<close>.\<close>

definition config_pass_unset :: Config where
  "config_pass_unset =
     \<lparr>AuthGrantRequest =
        \<lparr>URL = ''http://127.0.0.1:8080/auth'', User = [], Pass = ''~env~does-not-exist'',
         Scope = [], Headers = [],
         ExpiresMarginSeconds = 0, BasicAuthSkipEncoding = False\<rparr>,
      Trace = False\<rparr>"

definition config_user_pass_unset :: Config where
  "config_user_pass_unset =
     \<lparr>AuthGrantRequest =
        \<lparr>URL = ''http://127.0.0.1:8080/auth'', User = ''user'', Pass = ''~env~does-not-exist'',
         Scope = [], Headers = [],
         ExpiresMarginSeconds = 0, BasicAuthSkipEncoding = False\<rparr>,
      Trace = False\<rparr>"

text \<open>
  The plugin instance of the repository's test once constructed, an incoming request
  that already carries an \<open>Authorization\<close> header, and an authorization server as in
  the test. \<open>unmarshal_test\<close> and \<open>parse_float_test\<close> give what \<open>json.Unmarshal\<close>
  and \<open>strconv.ParseFloat\<close> return on the bodies and strings used here;
  \<open>status_text_test\<close> gives \<open>http.StatusText\<close> on the status codes used here. An
  out-of-range float converts to the smallest \<open>int64\<close>, as on amd64.
\<close>

definition plugin_test :: OutgoingOAuth2CC where
  "plugin_test =
     \<lparr>name = ''test'', trace = False,
      authGrantUrl = ''http://127.0.0.1:8080/auth'', authGrantScope = [],
      authGrantHeaders = [''header1'' \<mapsto> ''value1'', ''Authorization'' \<mapsto> ''Basic dXNlcjpwYXNz''],
      authGrantExpiresMarginSeconds = 1,
      state = \<lparr>token = [], expires = 0\<rparr>\<rparr>"

definition request_test :: Request where
  "request_test = \<lparr>Header = [''Authorization'' \<mapsto> [''Basic from-caller'']], Rest = ''GET /data''\<rparr>"

definition body_ok :: string where
  "body_ok = ''{\"access_token\": \"test_token0\", \"expires_in\": 3600}''"

definition body_no_expires_in :: string where
  "body_no_expires_in = ''{\"access_token\": \"test_token0\"}''"

definition body_long_lived :: string where
  "body_long_lived = ''{\"access_token\": \"test_token0\", \"expires_in\": 10000000000}''"

definition unmarshal_test :: "string \<Rightarrow> string + (string \<rightharpoonup> jvalue)" where
  "unmarshal_test b =
     (if b = body_ok
        then Inr [''access_token'' \<mapsto> JString ''test_token0'',
                  ''expires_in'' \<mapsto> JNumber (Finite 3600)]
      else if b = body_no_expires_in
        then Inr [''access_token'' \<mapsto> JString ''test_token0'']
      else if b = body_long_lived
        then Inr [''access_token'' \<mapsto> JString ''test_token0'',
                  ''expires_in'' \<mapsto> JNumber (Finite 10000000000)]
      else Inl ''invalid character'')"

definition parse_float_test :: "string \<Rightarrow> float64 \<times> string option" where
  "parse_float_test s =
     (if s = ''3600'' then (Finite 3600, None) else (Finite 0, Some ''invalid syntax''))"

definition status_text_test :: "int \<Rightarrow> string" where
  "status_text_test code =
     (if code = 200 then ''OK'' else if code = 403 then ''Forbidden''
      else if code = 500 then ''Internal Server Error'' else [])"

definition world_test :: world where
  "world_test =
     \<lparr>now_check = 63900000000123456789,
      now_store = 63900000000234567890,
      NewRequest = (\<lambda>method url body. None),
      Do = (\<lambda>r. Inr \<lparr>StatusCode = 200, Body = body_ok\<rparr>),
      Unmarshal = unmarshal_test,
      ParseFloat = parse_float_test,
      StatusText = status_text_test,
      float_out_of_range = (\<lambda>f. - (2 ^ 63)),
      Write_fails = False\<rparr>"

text \<open>The same server answering without \<open>expires_in\<close>, with status 403, and with a
  lifetime of \<open>10\<^sup>1\<^sup>0\<close> seconds; and a second request 1000 seconds after the first.\<close>

definition world_no_expires_in :: world where
  "world_no_expires_in =
     world_test\<lparr>Do := (\<lambda>r. Inr \<lparr>StatusCode = 200, Body = body_no_expires_in\<rparr>)\<rparr>"

definition world_403 :: world where
  "world_403 =
     world_test\<lparr>Do := (\<lambda>r. Inr \<lparr>StatusCode = 403, Body = ''Forbidden (wrong auth header)''\<rparr>)\<rparr>"

definition world_long_lived :: world where
  "world_long_lived =
     world_test\<lparr>Do := (\<lambda>r. Inr \<lparr>StatusCode = 200, Body = body_long_lived\<rparr>)\<rparr>"

definition world_later :: world where
  "world_later =
     world_test\<lparr>now_check := 63900001000123456789, now_store := 63900001000234567890\<rparr>"

section \<open>Properties of flexible-value resolution\<close>

subsection \<open>Prefixes and splitting\<close>

lemma HasPrefix_Cons: "HasPrefix (c # s) (d # pre) = (c = d \<and> HasPrefix s pre)"
  by (auto simp: HasPrefix_def)

lemma HasPrefix_Nil [simp]: "HasPrefix s []"
  by (simp add: HasPrefix_def)

lemma HasPrefix_Nil2 [simp]: "HasPrefix [] (d # pre) = False"
  by (simp add: HasPrefix_def)

lemma HasPrefixD: "HasPrefix s pre \<Longrightarrow> \<exists>rest. s = pre @ rest"
  unfolding HasPrefix_def by (metis append_take_drop_id)

lemma genSplit_hit: "genSplit (Suc k) sep (sep # s) = [] # genSplit k sep s"
  by simp

lemma genSplit_miss:
  "c \<noteq> sep \<Longrightarrow>
   genSplit (Suc k) sep (c # s) =
     (case genSplit (Suc k) sep s of p # ps \<Rightarrow> (c # p) # ps | [] \<Rightarrow> [])"
  by simp

lemmas genSplit_steps = genSplit_hit genSplit_miss genSplit.simps(1)

lemma SplitN_base64:
  "SplitN (''~base64~'' @ rest) (CHR ''~'') (Suc (Suc (Suc (Suc 0)))) =
     [] # ''base64'' # genSplit (Suc 0) (CHR ''~'') rest"
proof -
  have "min (Suc (Suc (Suc (Suc 0)))) (length (''~base64~'' @ rest) + 1) - 1 = Suc (Suc (Suc 0))"
    by simp
  then show ?thesis
    by (simp del: genSplit.simps add: SplitN_def genSplit_steps)
qed

lemma SplitN_base64_source:
  "SplitN (''~base64~direct~'' @ p) (CHR ''~'') (Suc (Suc (Suc (Suc 0)))) = [[], ''base64'', ''direct'', p]"
  "SplitN (''~base64~env~'' @ p) (CHR ''~'') (Suc (Suc (Suc (Suc 0)))) = [[], ''base64'', ''env'', p]"
  "SplitN (''~base64~file~'' @ p) (CHR ''~'') (Suc (Suc (Suc (Suc 0)))) = [[], ''base64'', ''file'', p]"
  using SplitN_base64 [of "''direct~'' @ p"] SplitN_base64 [of "''env~'' @ p"]
    SplitN_base64 [of "''file~'' @ p"]
  by (simp_all del: genSplit.simps add: genSplit_steps)

lemma SplitN_source:
  "SplitN (''~direct~'' @ p) (CHR ''~'') (Suc (Suc (Suc 0))) = [[], ''direct'', p]"
  "SplitN (''~env~'' @ p) (CHR ''~'') (Suc (Suc (Suc 0))) = [[], ''env'', p]"
  "SplitN (''~file~'' @ p) (CHR ''~'') (Suc (Suc (Suc 0))) = [[], ''file'', p]"
proof -
  have "min (Suc (Suc (Suc 0))) (length (''~direct~'' @ p) + 1) - 1 = Suc (Suc 0)"
    "min (Suc (Suc (Suc 0))) (length (''~env~'' @ p) + 1) - 1 = Suc (Suc 0)"
    "min (Suc (Suc (Suc 0))) (length (''~file~'' @ p) + 1) - 1 = Suc (Suc 0)"
    by simp_all
  then show
    "SplitN (''~direct~'' @ p) (CHR ''~'') (Suc (Suc (Suc 0))) = [[], ''direct'', p]"
    "SplitN (''~env~'' @ p) (CHR ''~'') (Suc (Suc (Suc 0))) = [[], ''env'', p]"
    "SplitN (''~file~'' @ p) (CHR ''~'') (Suc (Suc (Suc 0))) = [[], ''file'', p]"
    by (simp_all del: genSplit.simps add: SplitN_def genSplit_steps)
qed

subsection \<open>Resolution by source\<close>

lemma resolve_literal: "\<not> HasPrefix fv ''~'' \<Longrightarrow> fromFlexibleValue sy fv = Inr fv"
  by (simp add: fromFlexibleValue_def)

lemma resolve_direct: "fromFlexibleValue sy (''~direct~'' @ p) = Inr p"
  by (simp add: fromFlexibleValue_def SplitN_source [simplified] HasPrefix_Cons)

lemma resolve_env:
  "fromFlexibleValue sy (''~env~'' @ n) =
     (case LookupEnv sy n of None \<Rightarrow> Inl (EnvNotFound n) | Some v \<Rightarrow> Inr v)"
  by (simp add: fromFlexibleValue_def SplitN_source [simplified] HasPrefix_Cons
      split: option.splits)

lemma resolve_file:
  "fromFlexibleValue sy (''~file~'' @ n) =
     (case ReadFile sy n of None \<Rightarrow> Inl (ReadFileError n) | Some v \<Rightarrow> Inr (TrimSpace sy v))"
  by (simp add: fromFlexibleValue_def SplitN_source [simplified] HasPrefix_Cons
      split: option.splits)

lemma resolve_base64_direct:
  "fromFlexibleValue sy (''~base64~direct~'' @ p) = decode_first_success p"
  by (simp add: fromFlexibleValue_def SplitN_base64_source [simplified] HasPrefix_Cons
      decode_first_success_def split: option.splits)

lemma resolve_base64_env:
  "LookupEnv sy n = Some v \<Longrightarrow>
   fromFlexibleValue sy (''~base64~env~'' @ n) = decode_first_success v"
  by (simp add: fromFlexibleValue_def SplitN_base64_source [simplified] HasPrefix_Cons
      decode_first_success_def split: option.splits)

lemma resolve_base64_file:
  "ReadFile sy n = Some b \<Longrightarrow>
   fromFlexibleValue sy (''~base64~file~'' @ n) = decode_first_success (TrimSpace sy b)"
  by (simp add: fromFlexibleValue_def SplitN_base64_source [simplified] HasPrefix_Cons
      decode_first_success_def split: option.splits)

lemma decode_first_success_fails:
  "(\<exists>e. decode_first_success v = Inl e) \<longleftrightarrow>
     DecodeString StdEncoding v = None \<and> DecodeString URLEncoding v = None
     \<and> DecodeString RawURLEncoding v = None"
  by (auto simp: decode_first_success_def split: option.splits)

subsection \<open>Decoding the test vectors\<close>

lemmas base64_eval =
  DecodeString_def decodeMap_def StdEncoding_def URLEncoding_def RawURLEncoding_def
  encodeStd_def encodeURL_def is_newline_def skip_newlines_def quantum_bytes_def
  char_of_eq_iff take_bit_eq_mod

lemma decode_YWE:
  "DecodeString StdEncoding ''YWE'' = None"
  "DecodeString URLEncoding ''YWE'' = None"
  "DecodeString RawURLEncoding ''YWE'' = Some ''aa''"
  by (simp_all add: base64_eval)

lemma decode_YWE_padded: "DecodeString StdEncoding ''YWE='' = Some ''aa''"
  by (simp add: base64_eval)

lemma decode_Pz8_underscore:
  "DecodeString StdEncoding ''Pz8_'' = None"
  "DecodeString URLEncoding ''Pz8_'' = Some ''???''"
  by (simp_all add: base64_eval)

lemma decode_Pz8_slash: "DecodeString StdEncoding ''Pz8/'' = Some ''???''"
  by (simp add: base64_eval)

lemma decode_env_value: "DecodeString StdEncoding ''ZW52X3ZhbHVl'' = Some ''env_value''"
  by (simp add: base64_eval)

lemma case_sum_neq_Inl:
  "(x :: 'a + 'b) \<noteq> Inl E \<Longrightarrow> (\<And>v. f v \<noteq> Inl E) \<Longrightarrow>
   (case x of Inl err \<Rightarrow> Inl err | Inr v \<Rightarrow> f v) \<noteq> Inl E"
  by (cases x) auto

lemma case_option_neq_Inl:
  "a \<noteq> Inl E \<Longrightarrow> (\<And>v. f v \<noteq> Inl E) \<Longrightarrow>
   (case x of None \<Rightarrow> a | Some v \<Rightarrow> f v) \<noteq> Inl E"
  by (cases x) auto

lemma if_neq_Inl:
  "(c \<Longrightarrow> a \<noteq> Inl E) \<Longrightarrow> (\<not> c \<Longrightarrow> b \<noteq> Inl E) \<Longrightarrow> (if c then a else b) \<noteq> Inl E"
  by simp

subsection \<open>The claims about flexible values\<close>

text \<open>
  C8. For every string \<open>X\<close>, the flexible value \<open>~direct~~X\<close> resolves to \<open>~X\<close>, and
  for every payload, \<open>~direct~payload\<close> resolves to the payload verbatim, whatever the
  environment and the files are.
\<close>

theorem direct_resolves_verbatim:
  "fromFlexibleValue sy (''~direct~~'' @ X) = Inr (''~'' @ X)
   \<and> fromFlexibleValue sy (''~direct~'' @ payload) = Inr payload
   \<and> fromFlexibleField sy fieldName (''~direct~'' @ payload) = Inr payload"
  using resolve_direct [of sy "''~'' @ X"] resolve_direct [of sy payload]
  by (simp add: fromFlexibleField_def)

text \<open>
  C9. For every input string that does not start with \<open>~\<close>, resolution returns the
  string unchanged and does not fail (neither \<open>fromFlexibleValue\<close> nor its wrapper
  \<open>fromFlexibleField\<close>).
\<close>

theorem literal_resolves_unchanged:
  assumes "\<not> HasPrefix fv ''~''"
  shows "fromFlexibleValue sy fv = Inr fv \<and> fromFlexibleField sy fieldName fv = Inr fv"
  using assms by (simp add: resolve_literal fromFlexibleField_def)

theorem literal_resolves_unchanged_witness:
  "\<not> HasPrefix ''direct_value'' ''~''
   \<and> fromFlexibleValue sys_test ''direct_value'' = Inr ''direct_value''
   \<and> fromFlexibleField sys_test ''Direct value'' ''direct_value'' = Inr ''direct_value''"
proof -
  have h: "\<not> HasPrefix ''direct_value'' ''~''"
    by (simp add: HasPrefix_def)
  show ?thesis
    using h literal_resolves_unchanged [OF h, of sys_test "''Direct value''"] by simp
qed

text \<open>
  C10. For every input string, resolution never returns the error "unknown encoding":
  the decoding branch is entered only when the value starts with \<open>~base64~\<close>, and then
  the encoding segment is \<open>base64\<close>.
\<close>

theorem unknown_encoding_unreachable:
  "fromFlexibleValue sy fv \<noteq> Inl (UnknownEncoding e)"
proof (cases "HasPrefix fv ''~base64~''")
  case True
  then obtain rest where fv: "fv = ''~base64~'' @ rest"
    using HasPrefixD by blast
  have enc: "SplitN fv (CHR ''~'') (Suc (Suc (Suc (Suc 0)))) ! Suc 0 = ''base64''"
    unfolding fv by (simp only: SplitN_base64 nth_Cons_Suc nth_Cons_0)
  show ?thesis
    using True enc unfolding fromFlexibleValue_def Let_def
    by (intro if_neq_Inl case_sum_neq_Inl case_option_neq_Inl) simp_all
next
  case False
  then show ?thesis
    unfolding fromFlexibleValue_def Let_def
    by (intro if_neq_Inl case_sum_neq_Inl case_option_neq_Inl) simp_all
qed

text \<open>
  C6. For a flexible value with the \<open>base64~\<close> prefix, the payload resolved from its
  source (direct, environment variable, or file after trimming) is decoded with the
  standard alphabet, then the padded URL-safe alphabet, then the unpadded URL-safe
  alphabet; the first successful decode is the result and resolution fails at this step
  only if all three fail. So \<open>~base64~direct~YWE\<close> and \<open>~base64~direct~YWE=\<close>
  resolve to \<open>aa\<close>, and \<open>~base64~direct~Pz8_\<close> and \<open>~base64~direct~Pz8/\<close> to
  \<open>???\<close>.
\<close>

theorem base64_first_successful_decode:
  "fromFlexibleValue sy (''~base64~direct~'' @ p) = decode_first_success p
   \<and> (LookupEnv sy n = Some v \<longrightarrow>
        fromFlexibleValue sy (''~base64~env~'' @ n) = decode_first_success v)
   \<and> (ReadFile sy path = Some b \<longrightarrow>
        fromFlexibleValue sy (''~base64~file~'' @ path) = decode_first_success (TrimSpace sy b))
   \<and> (decode_first_success u = Inr d \<longleftrightarrow>
        DecodeString StdEncoding u = Some d
        \<or> DecodeString StdEncoding u = None \<and> DecodeString URLEncoding u = Some d
        \<or> DecodeString StdEncoding u = None \<and> DecodeString URLEncoding u = None
           \<and> DecodeString RawURLEncoding u = Some d)
   \<and> ((\<exists>e. decode_first_success u = Inl e) \<longleftrightarrow>
        DecodeString StdEncoding u = None \<and> DecodeString URLEncoding u = None
        \<and> DecodeString RawURLEncoding u = None)
   \<and> fromFlexibleValue sy ''~base64~direct~YWE'' = Inr ''aa''
   \<and> fromFlexibleValue sy ''~base64~direct~YWE='' = Inr ''aa''
   \<and> fromFlexibleValue sy ''~base64~direct~Pz8_'' = Inr ''???''
   \<and> fromFlexibleValue sy ''~base64~direct~Pz8/'' = Inr ''???''"
proof -
  have order: "decode_first_success u = Inr d \<longleftrightarrow>
        DecodeString StdEncoding u = Some d
        \<or> DecodeString StdEncoding u = None \<and> DecodeString URLEncoding u = Some d
        \<or> DecodeString StdEncoding u = None \<and> DecodeString URLEncoding u = None
           \<and> DecodeString RawURLEncoding u = Some d"
    by (auto simp: decode_first_success_def split: option.splits)
  have ex1: "fromFlexibleValue sy ''~base64~direct~YWE'' = Inr ''aa''"
    using resolve_base64_direct [of sy "''YWE''"]
    by (simp add: decode_first_success_def decode_YWE)
  have ex2: "fromFlexibleValue sy ''~base64~direct~YWE='' = Inr ''aa''"
    using resolve_base64_direct [of sy "''YWE=''"]
    by (simp add: decode_first_success_def decode_YWE_padded)
  have ex3: "fromFlexibleValue sy ''~base64~direct~Pz8_'' = Inr ''???''"
    using resolve_base64_direct [of sy "''Pz8_''"]
    by (simp add: decode_first_success_def decode_Pz8_underscore)
  have ex4: "fromFlexibleValue sy ''~base64~direct~Pz8/'' = Inr ''???''"
    using resolve_base64_direct [of sy "''Pz8/''"]
    by (simp add: decode_first_success_def decode_Pz8_slash)
  show ?thesis
    using resolve_base64_direct [of sy p] resolve_base64_env [of sy n v]
      resolve_base64_file [of sy path b] order decode_first_success_fails [of u]
      ex1 ex2 ex3 ex4
    by blast
qed

theorem base64_first_successful_decode_witness:
  "LookupEnv sys_test ''TEST_ENV_BASE64'' = Some ''ZW52X3ZhbHVl''
   \<and> fromFlexibleValue sys_test ''~base64~env~TEST_ENV_BASE64'' = Inr ''env_value''"
proof -
  have h: "LookupEnv sys_test ''TEST_ENV_BASE64'' = Some ''ZW52X3ZhbHVl''"
    by (simp add: sys_test_def)
  show ?thesis
    using h base64_first_successful_decode [of sys_test _ "''TEST_ENV_BASE64''" "''ZW52X3ZhbHVl''"]
    by (simp add: decode_first_success_def decode_env_value)
qed


section \<open>Properties of construction\<close>

lemma isl_fromFlexibleField:
  "isl (fromFlexibleField sy fieldName v) = isl (fromFlexibleValue sy v)"
  by (simp add: fromFlexibleField_def split: sum.splits)

lemma resolveHeaders_fails_iff:
  "isl (resolveHeaders sy hs m) \<longleftrightarrow>
     (\<exists>h \<in> set hs. isl (fromFlexibleValue sy (Name h)) \<or> isl (fromFlexibleValue sy (Value h)))"
  by (induction hs arbitrary: m) (auto simp: fromFlexibleField_def split: sum.splits)

lemma New_fails_iff:
  "isl (New sy config nm) \<longleftrightarrow>
     (\<exists>h \<in> set (Headers (AuthGrantRequest config)).
         isl (fromFlexibleValue sy (Name h)) \<or> isl (fromFlexibleValue sy (Value h)))
     \<or> isl (fromFlexibleValue sy (User (AuthGrantRequest config)))
     \<or> (fromFlexibleValue sy (User (AuthGrantRequest config)) \<noteq> Inr []
         \<and> isl (fromFlexibleValue sy (Pass (AuthGrantRequest config))))
     \<or> isl (fromFlexibleValue sy (URL (AuthGrantRequest config)))
     \<or> fromFlexibleValue sy (URL (AuthGrantRequest config)) = Inr []"
proof -
  have hdrs: "isl (resolveHeaders sy (Headers (AuthGrantRequest config)) Map.empty) \<longleftrightarrow>
     (\<exists>h \<in> set (Headers (AuthGrantRequest config)).
         isl (fromFlexibleValue sy (Name h)) \<or> isl (fromFlexibleValue sy (Value h)))"
    by (rule resolveHeaders_fails_iff)
  show ?thesis
    unfolding hdrs [symmetric]
    by (auto simp: New_def Let_def fromFlexibleField_def split: sum.splits if_splits)
qed

lemma literal_values:
  "fromFlexibleValue sy [] = Inr []"
  "fromFlexibleValue sy ''user'' = Inr ''user''"
  "fromFlexibleValue sy ''user/=?&'' = Inr ''user/=?&''"
  "fromFlexibleValue sy ''pass/=?&'' = Inr ''pass/=?&''"
  "fromFlexibleValue sy ''header1'' = Inr ''header1''"
  "fromFlexibleValue sy ''value1'' = Inr ''value1''"
  "fromFlexibleValue sy ''http://127.0.0.1:8080/auth'' = Inr ''http://127.0.0.1:8080/auth''"
  by (simp_all add: resolve_literal HasPrefix_Cons)

lemma pass_unset: "fromFlexibleValue sys_test ''~env~does-not-exist'' = Inl (EnvNotFound ''does-not-exist'')"
  using resolve_env [of sys_test "''does-not-exist''"] by (simp add: sys_test_def)

lemma pass_file: "fromFlexibleValue sys_test ''~file~/tmp/passfile'' = Inr ''pass''"
  using resolve_file [of sys_test "''/tmp/passfile''"]
  by (simp add: sys_test_def trim_ascii_def is_ascii_space_def)

lemma escape_special:
  "QueryEscape ''user/=?&'' = ''user%2F%3D%3F%26''"
  "QueryEscape ''pass/=?&'' = ''pass%2F%3D%3F%26''"
  "QueryEscape ''user'' = ''user''"
  "QueryEscape ''pass'' = ''pass''"
  by (simp_all add: QueryEscape_def escape_byte_def shouldEscape_def is_alnum_def upperhex_def)

lemma encode_special:
  "EncodeToString StdEncoding ''user%2F%3D%3F%26:pass%2F%3D%3F%26'' =
     ''dXNlciUyRiUzRCUzRiUyNjpwYXNzJTJGJTNEJTNGJTI2''"
  by (simp add: EncodeToString_def sextet_def padding_def StdEncoding_def encodeStd_def)

lemma encode_simple: "EncodeToString StdEncoding ''user:pass'' = ''dXNlcjpwYXNz''"
  by (simp add: EncodeToString_def sextet_def padding_def StdEncoding_def encodeStd_def)

lemma New_Authorization:
  assumes "fromFlexibleValue sy (User (AuthGrantRequest config)) = Inr user"
    and "user \<noteq> []"
    and "New sy config nm = Inr c"
  shows "\<exists>pass. fromFlexibleValue sy (Pass (AuthGrantRequest config)) = Inr pass
           \<and> authGrantHeaders c ''Authorization'' =
               Some (''Basic '' @ EncodeToString StdEncoding
                       (queryEncode user (BasicAuthSkipEncoding (AuthGrantRequest config)) @ '':''
                        @ queryEncode pass (BasicAuthSkipEncoding (AuthGrantRequest config))))"
  using assms
  by (auto simp: New_def Let_def fromFlexibleField_def split: sum.splits if_splits)

lemma New_config_special:
  "\<exists>c. New sy config_special nm = Inr c
       \<and> authGrantHeaders c ''Authorization'' =
           Some ''Basic dXNlciUyRiUzRCUzRiUyNjpwYXNzJTJGJTNEJTNGJTI2''"
  by (simp add: New_def config_special_def fromFlexibleField_def literal_values
      queryEncode_def escape_special encode_special)

lemma New_config_simple:
  "\<exists>c. New sys_test config_simple nm = Inr c
       \<and> authGrantHeaders c ''Authorization'' = Some ''Basic dXNlcjpwYXNz''"
  by (simp add: New_def config_simple_def fromFlexibleField_def literal_values pass_file
      queryEncode_def escape_special encode_simple)

text \<open>
  C3, as amended. \<open>New\<close> returns an error, and so no instance, exactly when a header
  name or value, the user or the url fails to resolve, or the pass fails to resolve
  while the user did not resolve to the empty string, or the url resolves to the empty
  string. With an empty user the pass is never resolved, so a pass that cannot be
  resolved does not by itself prevent construction.
\<close>

theorem New_fails_on_unresolved_value:
  "isl (New sy config nm) \<longleftrightarrow>
     (\<exists>h \<in> set (Headers (AuthGrantRequest config)).
         isl (fromFlexibleValue sy (Name h)) \<or> isl (fromFlexibleValue sy (Value h)))
     \<or> isl (fromFlexibleValue sy (User (AuthGrantRequest config)))
     \<or> (fromFlexibleValue sy (User (AuthGrantRequest config)) \<noteq> Inr []
         \<and> isl (fromFlexibleValue sy (Pass (AuthGrantRequest config))))
     \<or> isl (fromFlexibleValue sy (URL (AuthGrantRequest config)))
     \<or> fromFlexibleValue sy (URL (AuthGrantRequest config)) = Inr []"
  by (rule New_fails_iff)

theorem New_fails_on_unresolved_value_witness:
  "fromFlexibleValue sys_test (User (AuthGrantRequest config_user_pass_unset)) \<noteq> Inr []
   \<and> isl (fromFlexibleValue sys_test (Pass (AuthGrantRequest config_user_pass_unset)))
   \<and> isl (New sys_test config_user_pass_unset ''test'')"
proof -
  have h: "fromFlexibleValue sys_test (User (AuthGrantRequest config_user_pass_unset)) \<noteq> Inr []
      \<and> isl (fromFlexibleValue sys_test (Pass (AuthGrantRequest config_user_pass_unset)))"
    by (simp add: config_user_pass_unset_def literal_values pass_unset)
  show ?thesis
    using h New_fails_on_unresolved_value [of sys_test config_user_pass_unset "''test''"]
    by blast
qed

text \<open>
  C3 as stated fails: in \<open>config_pass_unset\<close> the pass does not resolve (its
  environment variable is unset), the user is empty, and \<open>New\<close> returns an instance.
\<close>

theorem unresolved_pass_counterexample:
  "isl (fromFlexibleValue sys_test (Pass (AuthGrantRequest config_pass_unset)))
   \<and> \<not> isl (New sys_test config_pass_unset ''test'')"
  by (simp add: New_fails_iff config_pass_unset_def literal_values pass_unset)

text \<open>
  C7. When the user resolves to a non-empty string and \<open>New\<close> returns an instance, the
  instance's \<open>Authorization\<close> grant header is \<open>Basic\<close> followed by the standard
  base64 of \<open>encode(user):encode(pass)\<close>, where \<open>encode\<close> is \<open>url.QueryEscape\<close>
  unless \<open>basicAuthSkipEncoding\<close> is set, and then the identity. For the user
  \<open>user/=?&\<close> and the pass \<open>pass/=?&\<close> with the default encoding the header is
  \<open>Basic dXNlciUyRiUzRCUzRiUyNjpwYXNzJTJGJTNEJTNGJTI2\<close>.
\<close>

theorem basic_auth_header:
  "(fromFlexibleValue sy (User (AuthGrantRequest config)) = Inr user \<and> user \<noteq> []
      \<and> New sy config nm = Inr c \<longrightarrow>
    (\<exists>pass. fromFlexibleValue sy (Pass (AuthGrantRequest config)) = Inr pass
       \<and> authGrantHeaders c ''Authorization'' =
           Some (''Basic '' @ EncodeToString StdEncoding
                   (queryEncode user (BasicAuthSkipEncoding (AuthGrantRequest config)) @ '':''
                    @ queryEncode pass (BasicAuthSkipEncoding (AuthGrantRequest config))))))
   \<and> queryEncode s False = QueryEscape s
   \<and> queryEncode s True = s
   \<and> (\<exists>c'. New sy config_special nm = Inr c'
         \<and> authGrantHeaders c' ''Authorization'' =
             Some ''Basic dXNlciUyRiUzRCUzRiUyNjpwYXNzJTJGJTNEJTNGJTI2'')"
  using New_Authorization [of sy config user nm c] New_config_special [of sy nm]
  by (simp add: queryEncode_def)

theorem basic_auth_header_witness:
  "\<exists>c. fromFlexibleValue sys_test (User (AuthGrantRequest config_simple)) = Inr ''user''
       \<and> New sys_test config_simple ''test'' = Inr c
       \<and> fromFlexibleValue sys_test (Pass (AuthGrantRequest config_simple)) = Inr ''pass''
       \<and> authGrantHeaders c ''Authorization'' = Some ''Basic dXNlcjpwYXNz''"
proof -
  obtain c where c: "New sys_test config_simple ''test'' = Inr c"
    using New_config_simple [of "''test''"] by blast
  have u: "fromFlexibleValue sys_test (User (AuthGrantRequest config_simple)) = Inr ''user''"
    by (simp add: config_simple_def literal_values)
  have p: "fromFlexibleValue sys_test (Pass (AuthGrantRequest config_simple)) = Inr ''pass''"
    by (simp add: config_simple_def pass_file)
  have skip: "BasicAuthSkipEncoding (AuthGrantRequest config_simple) = False"
    by (simp add: config_simple_def)
  show ?thesis
    using basic_auth_header [of sys_test config_simple "''user''" "''test''" c] c u p skip
    by (auto simp: queryEncode_def escape_special encode_simple)
qed

section \<open>Properties of request handling\<close>

subsection \<open>Signed 64-bit arithmetic without overflow\<close>

lemma sint_maxInt: "sint (maxInt a b) = max (sint a) (sint b)"
  by (simp add: maxInt_def max_def)

lemma sint_Second: "sint Second = 1000000000"
  by (simp add: Second_def)

lemma int64_of_int: "- (2 ^ 63) \<le> k \<Longrightarrow> k < 2 ^ 63 \<Longrightarrow> sint (word_of_int k :: int64) = k"
  by (simp add: sint_sbintrunc' signed_take_bit_int_eq_self)

lemma int64_sub:
  "- (2 ^ 63) \<le> sint a - sint b \<Longrightarrow> sint a - sint b < 2 ^ 63 \<Longrightarrow>
   sint (a - b :: int64) = sint a - sint b"
  by (simp add: sint_word_ariths signed_take_bit_int_eq_self)

lemma int64_mul:
  "- (2 ^ 63) \<le> sint a * sint b \<Longrightarrow> sint a * sint b < 2 ^ 63 \<Longrightarrow>
   sint (a * b :: int64) = sint a * sint b"
  by (simp add: sint_word_ariths signed_take_bit_int_eq_self)

lemma trunc_nonneg: "0 \<le> q \<Longrightarrow> trunc q = \<lfloor>q\<rfloor>"
  by (simp add: trunc_def)

lemma trunc_neg: "\<not> 0 \<le> q \<Longrightarrow> \<lfloor>q\<rfloor> \<le> trunc q \<and> trunc q \<le> 0 \<and> \<lfloor>q\<rfloor> < 0"
proof -
  assume neg: "\<not> 0 \<le> q"
  have "\<lfloor>q\<rfloor> \<le> \<lceil>q\<rceil>"
    by (rule floor_le_ceiling)
  moreover have "\<lceil>q\<rceil> \<le> 0"
    using neg by (simp add: ceiling_le_zero)
  moreover have "\<lfloor>q\<rfloor> < 0"
    using neg by (simp add: floor_less_zero)
  ultimately show ?thesis
    using neg by (simp add: trunc_def)
qed

text \<open>With a margin of at least 1, discarding the fraction and rounding down give the
  same adjusted lifetime.\<close>

lemma adjusted_trunc_floor: "1 \<le> M \<Longrightarrow> max 1 (trunc q - M) = max 1 (\<lfloor>q\<rfloor> - M)"
proof (cases "0 \<le> q")
  case True
  then show ?thesis
    by (simp add: trunc_nonneg)
next
  case False
  assume "1 \<le> M"
  with trunc_neg [OF False] show ?thesis
    by (simp only: max_def split: if_splits) linarith
qed

text \<open>The stored expiry when nothing overflows.\<close>

lemma expiry_in_range:
  fixes margin :: int64 and q :: rat and t :: Time
  assumes m1: "1 \<le> sint margin"
    and lo: "- (2 ^ 63) \<le> \<lfloor>q\<rfloor> - sint margin"
    and hi: "\<lfloor>q\<rfloor> < 2 ^ 63"
    and dur: "max 1 (\<lfloor>q\<rfloor> - sint margin) \<le> 9223372036"
  shows "Add (Truncate t Second) (maxInt 1 (int64_of_float64 w (Finite q) - margin) * Second) =
           (t - t mod 1000000000) + max 1 (\<lfloor>q\<rfloor> - sint margin) * 1000000000"
proof -
  have tf: "\<lfloor>q\<rfloor> \<le> trunc q"
    using trunc_nonneg [of q] trunc_neg [of q] by (cases "0 \<le> q") simp_all
  have p63: "(2::int) ^ 63 = 9223372036854775808"
    by simp
  have tr_lo: "- (2 ^ 63) \<le> trunc q"
    using tf lo m1 by linarith
  have tr_hi: "trunc q < 2 ^ 63"
  proof (cases "0 \<le> q")
    case True
    then show ?thesis
      using hi by (simp only: trunc_nonneg)
  next
    case False
    have "trunc q \<le> 0"
      using trunc_neg [OF False] by simp
    then show ?thesis
      unfolding p63 by linarith
  qed
  have conv: "sint (int64_of_float64 w (Finite q)) = trunc q"
    using tr_lo tr_hi by (simp add: int64_of_float64_def int64_of_int)
  have sub: "sint (int64_of_float64 w (Finite q) - margin) = trunc q - sint margin"
  proof (rule int64_sub [THEN trans])
    show "- (2 ^ 63) \<le> sint (int64_of_float64 w (Finite q)) - sint margin"
      unfolding conv using tf lo by linarith
    show "sint (int64_of_float64 w (Finite q)) - sint margin < 2 ^ 63"
      unfolding conv using tr_hi m1 by linarith
    show "sint (int64_of_float64 w (Finite q)) - sint margin = trunc q - sint margin"
      unfolding conv by simp
  qed
  define A where "A = max 1 (\<lfloor>q\<rfloor> - sint margin)"
  have adj: "sint (maxInt 1 (int64_of_float64 w (Finite q) - margin)) = A"
    unfolding A_def using adjusted_trunc_floor [OF m1, of q] by (simp add: sint_maxInt sub)
  have pos: "1 \<le> A"
    by (simp add: A_def)
  have dur': "A \<le> 9223372036"
    using dur by (simp only: A_def)
  have mul: "sint (maxInt 1 (int64_of_float64 w (Finite q) - margin) * Second) = A * 1000000000"
  proof (rule int64_mul [THEN trans])
    show "- (2 ^ 63) \<le> sint (maxInt 1 (int64_of_float64 w (Finite q) - margin)) * sint Second"
      unfolding adj sint_Second p63 using pos by linarith
    show "sint (maxInt 1 (int64_of_float64 w (Finite q) - margin)) * sint Second < 2 ^ 63"
      unfolding adj sint_Second p63 using dur' by linarith
    show "sint (maxInt 1 (int64_of_float64 w (Finite q) - margin)) * sint Second = A * 1000000000"
      unfolding adj sint_Second by simp
  qed
  show ?thesis
    unfolding A_def [symmetric] by (simp add: Add_def Truncate_def sint_Second mul)
qed

subsection \<open>The paths through ServeHTTP\<close>

lemmas ServeHTTP_unfold =
  ServeHTTP_def Let_def after_grant_def forward_def serveInternalError_def serveError_def
  assert_string_def assert_float64_def After_def

lemma ServeHTTP_valid:
  "now_check w \<le> expires (state c) \<Longrightarrow> ServeHTTP w c req = (c, forward c req)"
  by (simp add: ServeHTTP_def After_def)

lemma ServeHTTP_forwarded:
  assumes "ServeHTTP w c req = (c1, e1)" and "reply e1 = Forwarded r1"
  shows "r1 = req\<lparr>Header := (Header req)(''Authorization'' \<mapsto> [''Bearer '' @ token (state c1)])\<rparr>"
  using assms
  by (auto simp: ServeHTTP_unfold
      split: if_splits option.splits sum.splits prod.splits jvalue.splits)

lemma ServeHTTP_stale_calls:
  assumes "After (now_check w) (expires (state c))"
    and "ServeHTTP w c req = (c1, e1)" and "reply e1 = Forwarded r1"
  shows "grant_calls e1 = [build_request c (form_data (authGrantScope c))]"
  using assms
  by (auto simp: ServeHTTP_unfold
      split: if_splits option.splits sum.splits prod.splits jvalue.splits)

lemma ServeHTTP_status:
  assumes "After (now_check w) (expires (state c))"
    and "NewRequest w ''POST'' (authGrantUrl c) (form_data (authGrantScope c)) = None"
    and "Do w (build_request c (form_data (authGrantScope c))) = Inr agRes"
    and "StatusCode agRes \<noteq> 200"
  shows "fst (ServeHTTP w c req) = c"
    and "reply (snd (ServeHTTP w c req)) =
           Responded (StatusCode agRes)
             (StatusText w (StatusCode agRes) @ '': status-code: '' @ Itoa (StatusCode agRes))"
    and "grant_calls (snd (ServeHTTP w c req)) = [build_request c (form_data (authGrantScope c))]"
  using assms by (simp_all add: ServeHTTP_unfold)

lemma ServeHTTP_granted_aux:
  assumes "After (now_check w) (expires (state c))"
    and "NewRequest w ''POST'' (authGrantUrl c) (form_data (authGrantScope c)) = None"
    and "Do w (build_request c (form_data (authGrantScope c))) = Inr agRes"
    and "StatusCode agRes = 200"
    and "Unmarshal w (Body agRes) = Inr m"
    and "assert_string (m ''access_token'') = (tok, True)"
    and "assert_string (m ''expires_in'') = (s, okStr)"
    and "assert_float64 (m ''expires_in'') = (f0, okFlt)"
    and "(if \<not> okFlt \<and> okStr then ParseFloat w s else (f0, None)) = (f, err)"
    and "okFlt \<or> err = None"
  shows "state (fst (ServeHTTP w c req)) =
           \<lparr>token = tok,
            expires = Add (Truncate (now_store w) Second)
                        (maxInt 1 (int64_of_float64 w f - authGrantExpiresMarginSeconds c) * Second)\<rparr>"
    and "reply (snd (ServeHTTP w c req)) =
           Forwarded (req\<lparr>Header := (Header req)(''Authorization'' \<mapsto> [''Bearer '' @ tok])\<rparr>)"
    and "grant_calls (snd (ServeHTTP w c req)) = [build_request c (form_data (authGrantScope c))]"
  using assms
  by (auto simp: ServeHTTP_def Let_def after_grant_def forward_def)

lemma ServeHTTP_granted:
  assumes "After (now_check w) (expires (state c))"
    and "NewRequest w ''POST'' (authGrantUrl c) (form_data (authGrantScope c)) = None"
    and "Do w (build_request c (form_data (authGrantScope c))) = Inr agRes"
    and "StatusCode agRes = 200"
    and "Unmarshal w (Body agRes) = Inr m"
    and "m ''access_token'' = Some (JString tok)"
    and "m ''expires_in'' = Some (JNumber f)
         \<or> (\<exists>s. m ''expires_in'' = Some (JString s) \<and> ParseFloat w s = (f, None))
         \<or> (f = Finite 0 \<and> (\<forall>g. m ''expires_in'' \<noteq> Some (JNumber g))
              \<and> (\<forall>s. m ''expires_in'' \<noteq> Some (JString s)))"
  shows "state (fst (ServeHTTP w c req)) =
           \<lparr>token = tok,
            expires = Add (Truncate (now_store w) Second)
                        (maxInt 1 (int64_of_float64 w f - authGrantExpiresMarginSeconds c) * Second)\<rparr>
         \<and> reply (snd (ServeHTTP w c req)) =
           Forwarded (req\<lparr>Header := (Header req)(''Authorization'' \<mapsto> [''Bearer '' @ tok])\<rparr>)
         \<and> grant_calls (snd (ServeHTTP w c req)) = [build_request c (form_data (authGrantScope c))]"
proof -
  have tok: "assert_string (m ''access_token'') = (tok, True)"
    using assms(6) by (simp add: assert_string_def)
  note aux = ServeHTTP_granted_aux [OF assms(1-5) tok]
  consider
    (number) "m ''expires_in'' = Some (JNumber f)"
  | (str) s where "m ''expires_in'' = Some (JString s)" "ParseFloat w s = (f, None)"
  | (neither) "f = Finite 0" "\<forall>g. m ''expires_in'' \<noteq> Some (JNumber g)"
      "\<forall>s. m ''expires_in'' \<noteq> Some (JString s)"
    using assms(7) by blast
  then show ?thesis
  proof cases
    case number
    have "assert_string (m ''expires_in'') = ([], False)"
      "assert_float64 (m ''expires_in'') = (f, True)"
      using number by (simp_all add: assert_string_def assert_float64_def)
    from aux [OF this, of f None] show ?thesis
      by simp
  next
    case str
    have "assert_string (m ''expires_in'') = (s, True)"
      "assert_float64 (m ''expires_in'') = (Finite 0, False)"
      using str(1) by (simp_all add: assert_string_def assert_float64_def)
    from aux [OF this, of f None] str(2) show ?thesis
      by simp
  next
    case neither
    have "assert_string (m ''expires_in'') = ([], False)"
      "assert_float64 (m ''expires_in'') = (Finite 0, False)"
      using neither(2,3)
      by (auto simp: assert_string_def assert_float64_def split: option.splits jvalue.splits)
    from aux [OF this, of f None] neither(1) show ?thesis
      by simp
  qed
qed


subsection \<open>The test server\<close>

lemma world_test_facts:
  "After (now_check world_test) (expires (state plugin_test))"
  "NewRequest world_test method url body = None"
  "Do world_test r = Inr \<lparr>StatusCode = 200, Body = body_ok\<rparr>"
  "Unmarshal world_test body_ok =
     Inr [''access_token'' \<mapsto> JString ''test_token0'', ''expires_in'' \<mapsto> JNumber (Finite 3600)]"
  "now_store world_test = 63900000000234567890"
  by (simp_all add: world_test_def plugin_test_def After_def unmarshal_test_def)

lemma world_no_expires_in_facts:
  "After (now_check world_no_expires_in) (expires (state plugin_test))"
  "NewRequest world_no_expires_in method url body = None"
  "Do world_no_expires_in r = Inr \<lparr>StatusCode = 200, Body = body_no_expires_in\<rparr>"
  "Unmarshal world_no_expires_in body_no_expires_in = Inr [''access_token'' \<mapsto> JString ''test_token0'']"
  "now_store world_no_expires_in = 63900000000234567890"
  by (simp_all add: world_no_expires_in_def world_test_def plugin_test_def After_def
      unmarshal_test_def body_ok_def body_no_expires_in_def)

lemma world_403_facts:
  "After (now_check world_403) (expires (state plugin_test))"
  "NewRequest world_403 method url body = None"
  "Do world_403 r = Inr \<lparr>StatusCode = 403, Body = ''Forbidden (wrong auth header)''\<rparr>"
  "StatusText world_403 403 = ''Forbidden''"
  by (simp_all add: world_403_def world_test_def plugin_test_def After_def status_text_test_def)

lemma world_long_lived_facts:
  "After (now_check world_long_lived) (expires (state plugin_test))"
  "NewRequest world_long_lived method url body = None"
  "Do world_long_lived r = Inr \<lparr>StatusCode = 200, Body = body_long_lived\<rparr>"
  "Unmarshal world_long_lived body_long_lived =
     Inr [''access_token'' \<mapsto> JString ''test_token0'',
          ''expires_in'' \<mapsto> JNumber (Finite 10000000000)]"
  "now_store world_long_lived = 63900000000234567890"
  by (simp_all add: world_long_lived_def world_test_def plugin_test_def After_def
      unmarshal_test_def body_ok_def body_no_expires_in_def body_long_lived_def)

lemma plugin_test_margin: "authGrantExpiresMarginSeconds plugin_test = 1"
  by (simp add: plugin_test_def)

lemma Itoa_403: "Itoa 403 = ''403''"
  by (simp add: Itoa_def digits.simps char_of_eq_iff take_bit_eq_mod)

lemma int64_zero: "int64_of_float64 w (Finite 0) = 0"
  by (simp add: int64_of_float64_def trunc_def)

lemma test_expiry:
  "Add (Truncate 63900000000234567890 Second) (maxInt 1 (int64_of_float64 w (Finite 3600) - 1) * Second)
     = 63900003599000000000"
  "Add (Truncate 63900000000234567890 Second) (maxInt 1 (- 1) * Second) = 63900000001000000000"
  "Add (Truncate 63900000000234567890 Second)
       (maxInt 1 (int64_of_float64 w (Finite 10000000000) - 1) * Second) = 55453255925290448384"
  by (simp_all add: Add_def Truncate_def Second_def maxInt_def int64_of_float64_def trunc_def)


lemma New_margin:
  "New sy config nm = Inr c \<Longrightarrow>
   authGrantExpiresMarginSeconds c = maxInt 1 (ExpiresMarginSeconds (AuthGrantRequest config))"
  by (auto simp: New_def Let_def split: sum.splits if_splits)

subsection \<open>The claims about request handling\<close>

text \<open>
  C1. The claim is that a 200 grant response without a usable \<open>expires_in\<close> gives a
  local 500 without storing a token or calling the next handler. The code does
  otherwise: when the token is stale, the grant response has status 200, its body
  decodes to an object with a string \<open>access_token\<close>, and \<open>expires_in\<close> is absent or
  is neither a number nor a string, \<open>ServeHTTP\<close> stores the token with the lifetime
  computed from \<open>expires_in = 0\<close> and calls the next handler with the bearer token.
  The error variable tested at that point still holds the \<open>nil\<close> of
  \<open>json.Unmarshal\<close>.
\<close>

theorem missing_expires_in_is_accepted:
  assumes "After (now_check w) (expires (state c))"
    and "NewRequest w ''POST'' (authGrantUrl c) (form_data (authGrantScope c)) = None"
    and "Do w (build_request c (form_data (authGrantScope c))) = Inr agRes"
    and "StatusCode agRes = 200"
    and "Unmarshal w (Body agRes) = Inr m"
    and "m ''access_token'' = Some (JString tok)"
    and "\<forall>g. m ''expires_in'' \<noteq> Some (JNumber g)"
    and "\<forall>s. m ''expires_in'' \<noteq> Some (JString s)"
  shows "state (fst (ServeHTTP w c req)) =
           \<lparr>token = tok,
            expires = Add (Truncate (now_store w) Second)
                        (maxInt 1 (0 - authGrantExpiresMarginSeconds c) * Second)\<rparr>
         \<and> reply (snd (ServeHTTP w c req)) =
             Forwarded (req\<lparr>Header := (Header req)(''Authorization'' \<mapsto> [''Bearer '' @ tok])\<rparr>)"
  using ServeHTTP_granted [OF assms(1-6), of "Finite 0" req] assms(7,8)
  by (simp add: int64_zero)

theorem missing_expires_in_is_accepted_witness:
  "After (now_check world_no_expires_in) (expires (state plugin_test))
   \<and> Do world_no_expires_in (build_request plugin_test (form_data (authGrantScope plugin_test)))
       = Inr \<lparr>StatusCode = 200, Body = body_no_expires_in\<rparr>
   \<and> Unmarshal world_no_expires_in body_no_expires_in
       = Inr [''access_token'' \<mapsto> JString ''test_token0'']
   \<and> state (fst (ServeHTTP world_no_expires_in plugin_test request_test)) =
       \<lparr>token = ''test_token0'', expires = 63900000001000000000\<rparr>
   \<and> reply (snd (ServeHTTP world_no_expires_in plugin_test request_test)) =
       Forwarded (request_test\<lparr>Header := (Header request_test)(''Authorization'' \<mapsto> [''Bearer test_token0''])\<rparr>)"
proof -
  have m: "Unmarshal world_no_expires_in
             (Body \<lparr>StatusCode = 200, Body = body_no_expires_in\<rparr>)
           = Inr [''access_token'' \<mapsto> JString ''test_token0'']"
    by (simp add: world_no_expires_in_facts)
  note margin = plugin_test_margin
  show ?thesis
    using missing_expires_in_is_accepted
      [OF world_no_expires_in_facts(1) world_no_expires_in_facts(2) world_no_expires_in_facts(3) _ m,
        of "''test_token0''" request_test]
    by (simp add: world_no_expires_in_facts margin test_expiry)
qed

text \<open>
  C2. The claim is that a grant response with a status other than 200 is relayed with
  its status and its body. The code relays the status and does not call the next
  handler, but the body it writes is the status text followed by
  \<open>: status-code: \<close> and the status in decimal, whatever the body of the grant
  response was; the plugin's state is unchanged.
\<close>

theorem non_200_reply_has_own_body:
  assumes "After (now_check w) (expires (state c))"
    and "NewRequest w ''POST'' (authGrantUrl c) (form_data (authGrantScope c)) = None"
    and "Do w (build_request c (form_data (authGrantScope c))) = Inr agRes"
    and "StatusCode agRes \<noteq> 200"
  shows "fst (ServeHTTP w c req) = c
         \<and> reply (snd (ServeHTTP w c req)) =
             Responded (StatusCode agRes)
               (StatusText w (StatusCode agRes) @ '': status-code: '' @ Itoa (StatusCode agRes))"
  using ServeHTTP_status [OF assms] by simp

theorem non_200_reply_has_own_body_witness:
  "After (now_check world_403) (expires (state plugin_test))
   \<and> Do world_403 (build_request plugin_test (form_data (authGrantScope plugin_test)))
       = Inr \<lparr>StatusCode = 403, Body = ''Forbidden (wrong auth header)''\<rparr>
   \<and> fst (ServeHTTP world_403 plugin_test request_test) = plugin_test
   \<and> reply (snd (ServeHTTP world_403 plugin_test request_test)) =
       Responded 403 ''Forbidden: status-code: 403''"
  using non_200_reply_has_own_body
    [OF world_403_facts(1) world_403_facts(2) world_403_facts(3), of request_test]
  by (simp add: world_403_facts Itoa_403)

text \<open>
  C4. A request that arrives while the current time is not after the stored expiry
  causes no grant request: the plugin's state is unchanged, and the next handler is
  called with the request whose \<open>Authorization\<close> header is set to
  \<open>Bearer <cached token>\<close>, replacing any value the caller supplied. Hence, when a
  first request finds the token stale and is forwarded after its grant, and a second
  request arrives no later than the expiry then stored, the two requests together
  cause exactly one grant call and both are forwarded with the same bearer token.
\<close>

theorem valid_token_is_reused:
  "(now_check w \<le> expires (state c) \<longrightarrow>
      ServeHTTP w c req =
        (c, \<lparr>reply = Forwarded
               (req\<lparr>Header := (Header req)(''Authorization'' \<mapsto> [''Bearer '' @ token (state c)])\<rparr>),
             grant_calls = [], stderr = [], stdout = []\<rparr>))
   \<and> (After (now_check w_first) (expires (state c)) \<and> ServeHTTP w_first c req_first = (c_mid, e_first)
        \<and> reply e_first = Forwarded r_first
        \<and> now_check w_second \<le> expires (state c_mid) \<and> ServeHTTP w_second c_mid req_second = (c_end, e_second) \<longrightarrow>
      length (grant_calls e_first @ grant_calls e_second) = 1
      \<and> Header r_first ''Authorization'' = Some [''Bearer '' @ token (state c_mid)]
      \<and> (\<exists>r_second. reply e_second = Forwarded r_second
            \<and> Header r_second ''Authorization'' = Some [''Bearer '' @ token (state c_mid)])
      \<and> c_end = c_mid)"
proof (intro conjI impI)
  assume "now_check w \<le> expires (state c)"
  then show "ServeHTTP w c req =
        (c, \<lparr>reply = Forwarded
               (req\<lparr>Header := (Header req)(''Authorization'' \<mapsto> [''Bearer '' @ token (state c)])\<rparr>),
             grant_calls = [], stderr = [], stdout = []\<rparr>)"
    by (simp add: ServeHTTP_valid forward_def)
next
  assume a: "After (now_check w_first) (expires (state c)) \<and> ServeHTTP w_first c req_first = (c_mid, e_first)
        \<and> reply e_first = Forwarded r_first
        \<and> now_check w_second \<le> expires (state c_mid) \<and> ServeHTTP w_second c_mid req_second = (c_end, e_second)"
  have calls: "grant_calls e_first = [build_request c (form_data (authGrantScope c))]"
    using a ServeHTTP_stale_calls by blast
  have fwd: "r_first = req_first\<lparr>Header := (Header req_first)(''Authorization'' \<mapsto> [''Bearer '' @ token (state c_mid)])\<rparr>"
    using a ServeHTTP_forwarded by blast
  have second: "(c_end, e_second) = (c_mid, forward c_mid req_second)"
    using a ServeHTTP_valid [of w_second c_mid req_second] by simp
  show "length (grant_calls e_first @ grant_calls e_second) = 1"
    using calls second by (simp add: forward_def)
  show "Header r_first ''Authorization'' = Some [''Bearer '' @ token (state c_mid)]"
    by (simp add: fwd)
  show "\<exists>r_second. reply e_second = Forwarded r_second
            \<and> Header r_second ''Authorization'' = Some [''Bearer '' @ token (state c_mid)]"
    using second by (simp add: forward_def)
  show "c_end = c_mid"
    using second by simp
qed

theorem valid_token_is_reused_witness:
  "After (now_check world_test) (expires (state plugin_test))
   \<and> reply (snd (ServeHTTP world_test plugin_test request_test)) =
       Forwarded (request_test\<lparr>Header := (Header request_test)(''Authorization'' \<mapsto> [''Bearer test_token0''])\<rparr>)
   \<and> now_check world_later \<le> expires (state (fst (ServeHTTP world_test plugin_test request_test)))
   \<and> length (grant_calls (snd (ServeHTTP world_test plugin_test request_test))
        @ grant_calls (snd (ServeHTTP world_later (fst (ServeHTTP world_test plugin_test request_test)) request_test))) = 1
   \<and> (\<exists>r2. reply (snd (ServeHTTP world_later (fst (ServeHTTP world_test plugin_test request_test)) request_test))
              = Forwarded r2
        \<and> Header r2 ''Authorization'' = Some [''Bearer test_token0''])"
proof -
  have m: "Unmarshal world_test (Body \<lparr>StatusCode = 200, Body = body_ok\<rparr>) =
     Inr [''access_token'' \<mapsto> JString ''test_token0'', ''expires_in'' \<mapsto> JNumber (Finite 3600)]"
    by (simp add: world_test_facts)
  have g: "state (fst (ServeHTTP world_test plugin_test request_test)) =
             \<lparr>token = ''test_token0'', expires = 63900003599000000000\<rparr>"
    "reply (snd (ServeHTTP world_test plugin_test request_test)) =
       Forwarded (request_test\<lparr>Header := (Header request_test)(''Authorization'' \<mapsto> [''Bearer test_token0''])\<rparr>)"
    using ServeHTTP_granted
      [OF world_test_facts(1) world_test_facts(2) world_test_facts(3) _ m,
        of "''test_token0''" "Finite 3600" request_test]
    by (simp_all add: world_test_facts plugin_test_margin test_expiry)
  have later: "now_check world_later \<le> expires (state (fst (ServeHTTP world_test plugin_test request_test)))"
    by (simp add: g world_later_def)
  show ?thesis
    using valid_token_is_reused
      [where c = plugin_test and w_first = world_test and req_first = request_test
         and c_mid = "fst (ServeHTTP world_test plugin_test request_test)"
         and e_first = "snd (ServeHTTP world_test plugin_test request_test)"
         and r_first = "request_test\<lparr>Header := (Header request_test)(''Authorization'' \<mapsto> [''Bearer test_token0''])\<rparr>"
         and w_second = world_later and req_second = request_test
         and c_end = "fst (ServeHTTP world_later (fst (ServeHTTP world_test plugin_test request_test)) request_test)"
         and e_second = "snd (ServeHTTP world_later (fst (ServeHTTP world_test plugin_test request_test)) request_test)"]
      world_test_facts(1) g later
    by simp
qed

text \<open>
  C5, as amended. The margin of an instance is the configured margin clamped to at
  least 1. After a successful grant whose \<open>expires_in\<close> is a finite number (given as
  a JSON number or as a string that \<open>strconv.ParseFloat\<close> accepts) such that its
  integral part fits \<open>int64\<close>, subtracting the margin does not leave \<open>int64\<close>, and the
  adjusted lifetime is at most 9223372036 seconds (so that its nanoseconds fit
  \<open>int64\<close>), the stored expiry is the current time truncated to whole seconds plus
  \<open>max(1, floor(expires_in) - margin)\<close> seconds. It is then at least one second after
  the truncated current time and strictly after the current time; this covers every
  \<open>expires_in\<close> from 0 on that is smaller than the margin.
\<close>

theorem stored_expiry_without_overflow:
  fixes q :: rat
  assumes "New sy config nm = Inr c0"
    and "c = c0\<lparr>state := st\<rparr>"
    and "M = max 1 (sint (ExpiresMarginSeconds (AuthGrantRequest config)))"
    and "After (now_check w) (expires (state c))"
    and "NewRequest w ''POST'' (authGrantUrl c) (form_data (authGrantScope c)) = None"
    and "Do w (build_request c (form_data (authGrantScope c))) = Inr agRes"
    and "StatusCode agRes = 200"
    and "Unmarshal w (Body agRes) = Inr m"
    and "m ''access_token'' = Some (JString tok)"
    and "m ''expires_in'' = Some (JNumber (Finite q))
         \<or> (\<exists>s. m ''expires_in'' = Some (JString s) \<and> ParseFloat w s = (Finite q, None))"
    and "- (2 ^ 63) \<le> \<lfloor>q\<rfloor> - M"
    and "\<lfloor>q\<rfloor> < 2 ^ 63"
    and "max 1 (\<lfloor>q\<rfloor> - M) \<le> 9223372036"
  shows "sint (authGrantExpiresMarginSeconds c) = M
         \<and> expires (state (fst (ServeHTTP w c req))) =
             (now_store w - now_store w mod 1000000000) + max 1 (\<lfloor>q\<rfloor> - M) * 1000000000
         \<and> (now_store w - now_store w mod 1000000000) + 1000000000
             \<le> expires (state (fst (ServeHTTP w c req)))
         \<and> now_store w < expires (state (fst (ServeHTTP w c req)))
         \<and> (0 \<le> q \<and> \<lfloor>q\<rfloor> \<le> M \<longrightarrow>
              expires (state (fst (ServeHTTP w c req))) =
                (now_store w - now_store w mod 1000000000) + 1000000000)"
proof -
  have margin: "sint (authGrantExpiresMarginSeconds c) = M"
    using New_margin [OF assms(1)] assms(2,3) by (simp add: sint_maxInt)
  have m1: "1 \<le> sint (authGrantExpiresMarginSeconds c)"
    unfolding margin using assms(3) by simp
  have granted: "state (fst (ServeHTTP w c req)) =
      \<lparr>token = tok,
       expires = Add (Truncate (now_store w) Second)
                   (maxInt 1 (int64_of_float64 w (Finite q) - authGrantExpiresMarginSeconds c) * Second)\<rparr>"
    using ServeHTTP_granted [OF assms(4-9), of "Finite q" req] assms(10) by blast
  have stored: "expires (state (fst (ServeHTTP w c req))) =
      (now_store w - now_store w mod 1000000000) + max 1 (\<lfloor>q\<rfloor> - M) * 1000000000"
    unfolding granted
    using expiry_in_range [OF m1, of q "now_store w" w] assms(11-13)
    by (simp add: margin)
  define A where "A = max 1 (\<lfloor>q\<rfloor> - M)"
  have A1: "1 \<le> A"
    by (simp add: A_def)
  have rem: "0 \<le> now_store w mod 1000000000" "now_store w mod 1000000000 < 1000000000"
    by simp_all
  have stored': "expires (state (fst (ServeHTTP w c req))) =
      (now_store w - now_store w mod 1000000000) + A * 1000000000"
    using stored by (simp add: A_def)
  have small: "0 \<le> q \<and> \<lfloor>q\<rfloor> \<le> M \<longrightarrow> A = 1"
    by (simp add: A_def max_def)
  show ?thesis
    using margin stored stored' A1 rem small by (auto simp: A_def [symmetric])
qed

theorem stored_expiry_without_overflow_witness:
  "\<exists>c0. New sys_test config_simple ''test'' = Inr c0
     \<and> After (now_check world_test) (expires (state c0))
     \<and> Unmarshal world_test body_ok =
         Inr [''access_token'' \<mapsto> JString ''test_token0'', ''expires_in'' \<mapsto> JNumber (Finite 3600)]
     \<and> - (2 ^ 63) \<le> \<lfloor>3600 :: rat\<rfloor> - max 1 (sint (ExpiresMarginSeconds (AuthGrantRequest config_simple)))
     \<and> sint (authGrantExpiresMarginSeconds c0) = 1
     \<and> expires (state (fst (ServeHTTP world_test c0 request_test))) = 63900003599000000000"
proof -
  obtain c0 where c0: "New sys_test config_simple ''test'' = Inr c0"
    using New_config_simple [of "''test''"] by blast
  have st: "state c0 = \<lparr>token = [], expires = 0\<rparr>"
    using c0 by (auto simp: New_def Let_def split: sum.splits if_splits)
  have stale: "After (now_check world_test) (expires (state c0))"
    by (simp add: st After_def world_test_def)
  have same: "c0 = c0\<lparr>state := state c0\<rparr>"
    by simp
  have M: "(1::int) = max 1 (sint (ExpiresMarginSeconds (AuthGrantRequest config_simple)))"
    by (simp add: config_simple_def)
  have m: "Unmarshal world_test (Body \<lparr>StatusCode = 200, Body = body_ok\<rparr>) =
     Inr [''access_token'' \<mapsto> JString ''test_token0'', ''expires_in'' \<mapsto> JNumber (Finite 3600)]"
    by (simp add: world_test_facts)
  have tok: "[''access_token'' \<mapsto> JString ''test_token0'', ''expires_in'' \<mapsto> JNumber (Finite 3600)]
               ''access_token'' = Some (JString ''test_token0'')"
    by simp
  have num: "[''access_token'' \<mapsto> JString ''test_token0'', ''expires_in'' \<mapsto> JNumber (Finite 3600)]
               ''expires_in'' = Some (JNumber (Finite 3600))
             \<or> (\<exists>s. [''access_token'' \<mapsto> JString ''test_token0'', ''expires_in'' \<mapsto> JNumber (Finite 3600)]
                      ''expires_in'' = Some (JString s)
                    \<and> ParseFloat world_test s = (Finite 3600, None))"
    by simp
  have b1: "- (2 ^ 63) \<le> \<lfloor>3600 :: rat\<rfloor> - 1"
    and b2: "\<lfloor>3600 :: rat\<rfloor> < 2 ^ 63"
    and b3: "max 1 (\<lfloor>3600 :: rat\<rfloor> - 1) \<le> 9223372036"
    by simp_all
  have "sint (authGrantExpiresMarginSeconds c0) = 1
     \<and> expires (state (fst (ServeHTTP world_test c0 request_test))) = 63900003599000000000"
    using stored_expiry_without_overflow
      [OF c0 same M stale world_test_facts(2) world_test_facts(3) _ m tok num b1 b2 b3,
        of request_test]
    by (simp add: world_test_facts)
  then show ?thesis
    using c0 stale world_test_facts(4) M by auto
qed

text \<open>
  C5 as stated fails where the arithmetic overflows: for a grant response with
  \<open>expires_in = 10000000000\<close> and the margin 1, the adjusted lifetime
  \<open>9999999999\<close> seconds times \<open>10\<^sup>9\<close> wraps around in \<open>int64\<close>, and the stored
  expiry is not the truncated current time plus that lifetime; it lies before the
  current time.
\<close>

theorem long_lifetime_counterexample:
  "expires (state (fst (ServeHTTP world_long_lived plugin_test request_test))) \<noteq>
     (now_store world_long_lived - now_store world_long_lived mod 1000000000)
     + max 1 (\<lfloor>10000000000 :: rat\<rfloor> - sint (authGrantExpiresMarginSeconds plugin_test)) * 1000000000
   \<and> expires (state (fst (ServeHTTP world_long_lived plugin_test request_test)))
       < now_store world_long_lived"
proof -
  have m: "Unmarshal world_long_lived (Body \<lparr>StatusCode = 200, Body = body_long_lived\<rparr>) =
     Inr [''access_token'' \<mapsto> JString ''test_token0'',
          ''expires_in'' \<mapsto> JNumber (Finite 10000000000)]"
    by (simp add: world_long_lived_facts)
  have g: "state (fst (ServeHTTP world_long_lived plugin_test request_test)) =
             \<lparr>token = ''test_token0'', expires = 55453255925290448384\<rparr>"
    using ServeHTTP_granted
      [OF world_long_lived_facts(1) world_long_lived_facts(2) world_long_lived_facts(3) _ m,
        of "''test_token0''" "Finite 10000000000" request_test]
    by (simp add: world_long_lived_facts plugin_test_margin test_expiry)
  show ?thesis
    by (simp add: g world_long_lived_facts plugin_test_margin)
qed

end
